theory Spec2Isabelle
  imports Main "HOL-Library.Sublist"
begin

section \<open>JavaScript strings\<close>

text \<open>
  A JavaScript string is a sequence of UTF-16 code units and \<^verbatim>\<open>.length\<close> counts
  code units, so a string is a list of code-unit values. All Persian letters used by
  the scrapers and the uploader lie in the basic plane (one code unit each).
  \<open>ustr\<close> turns an ASCII literal into code units.
\<close>

type_synonym jsstring = "nat list"

definition ustr :: "string \<Rightarrow> jsstring" where
  "ustr s = map of_char s"

text \<open>
  \<^verbatim>\<open>\s\<close> in a regular expression and the characters removed by \<^verbatim>\<open>String.prototype.trim\<close>:
  ECMAScript WhiteSpace and LineTerminator.
\<close>

definition isWhiteSpace :: "nat \<Rightarrow> bool" where
  "isWhiteSpace c =
     (c \<in> set [0x9, 0xA, 0xB, 0xC, 0xD, 0x20, 0xA0, 0x1680, 0x2028, 0x2029,
                0x202F, 0x205F, 0x3000, 0xFEFF]
      \<or> (0x2000 \<le> c \<and> c \<le> 0x200A))"

text \<open>\<^verbatim>\<open>\d\<close>: the ASCII digits.\<close>

definition isDigit :: "nat \<Rightarrow> bool" where
  "isDigit c = (0x30 \<le> c \<and> c \<le> 0x39)"

text \<open>\<^verbatim>\<open>s.trim()\<close>\<close>

definition trim :: "jsstring \<Rightarrow> jsstring" where
  "trim s = rev (dropWhile isWhiteSpace (rev (dropWhile isWhiteSpace s)))"

text \<open>\<^verbatim>\<open>s.includes(pat)\<close>\<close>

fun includesStr :: "jsstring \<Rightarrow> jsstring \<Rightarrow> bool" where
  "includesStr [] pat = (pat = [])"
| "includesStr (c # cs) pat = (prefix pat (c # cs) \<or> includesStr cs pat)"

text \<open>\<^verbatim>\<open>xs.join(sep)\<close>\<close>

fun joinWith :: "jsstring \<Rightarrow> jsstring list \<Rightarrow> jsstring" where
  "joinWith sep [] = []"
| "joinWith sep [x] = x"
| "joinWith sep (x # y # ys) = x @ sep @ joinWith sep (y # ys)"

text \<open>\<^verbatim>\<open>self.indexOf(f)\<close>: the first index holding \<open>f\<close> (\<open>None\<close> for JavaScript's -1).\<close>

fun indexOf :: "'a list \<Rightarrow> 'a \<Rightarrow> nat option" where
  "indexOf [] f = None"
| "indexOf (x # xs) f = (if x = f then Some 0 else map_option Suc (indexOf xs f))"

text \<open>\<^verbatim>\<open>self.filter((f, index, self) => self.indexOf(f) === index)\<close>\<close>

definition uniqueByIndexOf :: "'a list \<Rightarrow> 'a list" where
  "uniqueByIndexOf self =
     map fst (filter (\<lambda>(f, index). indexOf self f = Some index) (zip self [0..<length self]))"

text \<open>
  \<^verbatim>\<open>[...new Set(xs)]\<close>: a Set keeps its members in insertion order and ignores
  the insertion of a member it already holds.
\<close>

definition setAdd :: "'a list \<Rightarrow> 'a \<Rightarrow> 'a list" where
  "setAdd s x = (if x \<in> set s then s else s @ [x])"

definition newSet :: "'a list \<Rightarrow> 'a list" where
  "newSet xs = foldl setAdd [] xs"

text \<open>
  The dedup rule in the specification's words, for comparison with the two ways the
  code removes duplicates: the first occurrence of a value wins, the others go, and the
  order of what stays is unchanged.
\<close>

fun keepFirst :: "'a list \<Rightarrow> 'a list" where
  "keepFirst [] = []"
| "keepFirst (x # xs) = x # keepFirst (removeAll x xs)"

section \<open>Persian vocabulary of the sources\<close>

definition VIZHEGI :: jsstring where \<comment> \<open>U+0648 U+06CC U+0698 U+06AF U+06CC, "feature"\<close>
  "VIZHEGI = [0x648, 0x6CC, 0x698, 0x6AF, 0x6CC]"

definition HAYE :: jsstring where \<comment> \<open>U+0647 U+0627 U+06CC, plural marker\<close>
  "HAYE = [0x647, 0x627, 0x6CC]"

definition MAHSUL :: jsstring where \<comment> \<open>U+0645 U+062D U+0635 U+0648 U+0644, "product"\<close>
  "MAHSUL = [0x645, 0x62D, 0x635, 0x648, 0x644]"

definition FEATURES_LABEL :: jsstring where \<comment> \<open>the three words separated by spaces\<close>
  "FEATURES_LABEL = VIZHEGI @ [0x20] @ HAYE @ [0x20] @ MAHSUL"

definition PERSIAN_COMMA_SEP :: jsstring where \<comment> \<open>U+060C and a space\<close>
  "PERSIAN_COMMA_SEP = [0x60C, 0x20]"

section \<open>uploader.js: building the product payload\<close>

record product_data =
  pd_name :: jsstring
  pd_description :: jsstring
  pd_short_description :: jsstring
  pd_regular_price :: jsstring
  pd_sale_price :: jsstring
  pd_sku :: jsstring
  pd_images :: "jsstring list"
  pd_categories :: "jsstring list"
  pd_features :: "jsstring list"

record feature_field =
  ftitle :: jsstring
  fdesc :: jsstring

record meta_entry =
  meta_key :: jsstring
  meta_value :: "feature_field list"

record attribute =
  attr_id :: nat
  attr_name :: jsstring
  attr_options :: "jsstring list"
  attr_visible :: bool
  attr_variation :: bool

text \<open>
  \<^verbatim>\<open>wooCommerceProduct\<close>: an object whose keys other than name, type and status are
  present only when assigned; an absent key is \<open>None\<close>.
\<close>

record wc_product =
  wc_name :: jsstring
  wc_type :: jsstring
  wc_status :: jsstring
  wc_regular_price :: "jsstring option"
  wc_description :: "jsstring option"
  wc_short_description :: "jsstring option"
  wc_sku :: "jsstring option"
  wc_images :: "jsstring list option"
  wc_categories :: "nat list option"
  wc_sale_price :: "jsstring option"
  wc_meta_data :: "meta_entry list option"
  wc_attributes :: "attribute list option"

text \<open>
  The outcomes of the two read-only calls to the platform that precede the payload:
  the category search of \<^verbatim>\<open>getExistingCategory\<close> (\<open>None\<close> when nothing matches or
  the call fails) and the duplicate-SKU lookup.
\<close>

datatype sku_lookup = SkuExists | SkuFree | SkuLookupFailed

record wc_reads =
  getExistingCategory :: "jsstring \<Rightarrow> nat option"
  skuLookup :: "jsstring \<Rightarrow> sku_lookup"

definition processCategories :: "wc_reads \<Rightarrow> jsstring list \<Rightarrow> nat list" where
  "processCategories api categories =
     (case categories of
        [] \<Rightarrow> []
      | firstCategory # _ \<Rightarrow>
          (case getExistingCategory api firstCategory of
             None \<Rightarrow> []
           | Some categoryId \<Rightarrow> if categoryId \<noteq> 0 then [categoryId] else []))"

text \<open>Lines 100-184 of \<^verbatim>\<open>uploadProduct\<close>: the payload before features are mapped in.\<close>

definition buildBase :: "wc_reads \<Rightarrow> product_data \<Rightarrow> wc_product" where
  "buildBase api productData =
     (let productName = (if pd_name productData \<noteq> [] then pd_name productData
                         else ustr ''Untitled Product'');
          productPrice = (if pd_regular_price productData \<noteq> [] then pd_regular_price productData
                          else ustr ''0'');
          categoryIds = (if pd_categories productData \<noteq> []
                         then processCategories api (pd_categories productData) else [])
      in \<lparr> wc_name = productName,
           wc_type = ustr ''simple'',
           wc_status = ustr ''draft'',
           wc_regular_price =
             (if productPrice \<noteq> [] \<and> productPrice \<noteq> ustr ''0'' then Some productPrice else None),
           wc_description =
             (if length (pd_description productData) \<noteq> 0
              then (if length (pd_description productData) > 700 then None
                    else Some (pd_description productData))
              else None),
           wc_short_description =
             (if length (pd_short_description productData) > 200 then None
              else Some (pd_short_description productData)),
           wc_sku =
             (if pd_sku productData \<noteq> []
              then (case skuLookup api (pd_sku productData) of
                      SkuExists \<Rightarrow> None
                    | SkuFree \<Rightarrow> Some (pd_sku productData)
                    | SkuLookupFailed \<Rightarrow> Some (pd_sku productData))
              else None),
           wc_images = (if pd_images productData \<noteq> [] then Some (pd_images productData) else None),
           wc_categories = (if categoryIds \<noteq> [] then Some categoryIds else None),
           wc_sale_price =
             (if pd_sale_price productData \<noteq> [] then Some (pd_sale_price productData) else None),
           wc_meta_data = None,
           wc_attributes = None \<rparr>)"

text \<open>\<^verbatim>\<open>f.replace(/</g, '&lt;').replace(/>/g, '&gt;')\<close>\<close>

definition escapeAngle :: "jsstring \<Rightarrow> jsstring" where
  "escapeAngle f =
     concat (map (\<lambda>c. if c = 0x3E then ustr ''&gt;'' else [c])
       (concat (map (\<lambda>c. if c = 0x3C then ustr ''&lt;'' else [c]) f)))"

definition cleanFeatures :: "jsstring list \<Rightarrow> jsstring list" where
  "cleanFeatures features = uniqueByIndexOf (filter (\<lambda>f. f \<noteq> []) (map trim features))"

definition featuresHTML :: "jsstring list \<Rightarrow> jsstring" where
  "featuresHTML allFeatures =
     ustr ''<h3>'' @ FEATURES_LABEL @ ustr '':</h3><ul>''
     @ concat (map (\<lambda>f. ustr ''<li>'' @ escapeAngle f @ ustr ''</li>'') allFeatures)
     @ ustr ''</ul>''"

text \<open>
  Lines 187-253: the features become one meta entry, one attribute, the head of the
  description and, unless the short description already mentions the label word, the
  head of the short description.
\<close>

definition addFeatures :: "wc_product \<Rightarrow> jsstring list \<Rightarrow> wc_product" where
  "addFeatures p features =
     (if features \<noteq> [] then
        (let allFeatures = cleanFeatures features;
             formattedFeatures = map (\<lambda>feature. \<lparr> ftitle = feature, fdesc = [] \<rparr>) allFeatures;
             p1 = p\<lparr> wc_meta_data :=
                      Some [\<lparr> meta_key = ustr ''dina_product_features'',
                               meta_value = formattedFeatures \<rparr>] \<rparr>;
             p2 = p1\<lparr> wc_attributes :=
                      Some [\<lparr> attr_id = 0, attr_name = FEATURES_LABEL,
                               attr_options = allFeatures,
                               attr_visible = True, attr_variation = False \<rparr>] \<rparr>;
             p3 = (case wc_description p2 of
                     None \<Rightarrow> p2\<lparr> wc_description := Some (featuresHTML allFeatures) \<rparr>
                   | Some d \<Rightarrow>
                       if d \<noteq> []
                       then p2\<lparr> wc_description :=
                                 Some (featuresHTML allFeatures @ ustr ''<br><br>'' @ d) \<rparr>
                       else p2\<lparr> wc_description := Some (featuresHTML allFeatures) \<rparr>);
             shortFeatures = joinWith PERSIAN_COMMA_SEP (take 5 allFeatures)
         in (case wc_short_description p3 of
               None \<Rightarrow> p3\<lparr> wc_short_description := Some shortFeatures \<rparr>
             | Some sd \<Rightarrow>
                 if sd = [] then p3\<lparr> wc_short_description := Some shortFeatures \<rparr>
                 else if \<not> includesStr sd VIZHEGI
                 then p3\<lparr> wc_short_description := Some (shortFeatures @ ustr '' - '' @ sd) \<rparr>
                 else p3))
      else p)"

definition uploadPayload :: "wc_reads \<Rightarrow> product_data \<Rightarrow> wc_product" where
  "uploadPayload api productData = addFeatures (buildBase api productData) (pd_features productData)"

section \<open>uploader.js: creating the product, with one retry on a SKU conflict\<close>











definition examplePayload :: wc_product where
  "examplePayload =
     \<lparr> wc_name = ustr ''Trimmer'', wc_type = ustr ''simple'', wc_status = ustr ''draft'',
       wc_regular_price = Some (ustr ''8680000''), wc_description = None,
       wc_short_description = Some [], wc_sku = Some (ustr ''270341''),
       wc_images = None, wc_categories = None, wc_sale_price = None,
       wc_meta_data = None, wc_attributes = None \<rparr>"

section \<open>Image upload: download, cover the watermark, upload to the media library\<close>

text \<open>
  The collaborators of the image pipeline act on the outside world \<open>'w\<close> (network,
  clock, the sharp library); each returns its value, or the message of the error it
  throws, and the world after the call.
\<close>

type_synonym buffer = "nat list"

record uploaded_media =
  up_id :: nat
  up_source_url :: jsstring
  up_filename :: jsstring

record 'w image_io =
  io_download :: "'w \<Rightarrow> jsstring \<Rightarrow> (jsstring + buffer) \<times> 'w"
  io_sharpCover :: "'w \<Rightarrow> buffer \<Rightarrow> (jsstring + buffer) \<times> 'w"
  io_stamp :: "'w \<Rightarrow> jsstring \<times> 'w"
  io_uploadMedia :: "'w \<Rightarrow> buffer \<Rightarrow> jsstring \<Rightarrow> (jsstring + uploaded_media) \<times> 'w"

text \<open>
  \<^verbatim>\<open>removeWatermark\<close>: the whole sharp pipeline sits in a try block whose handler
  returns the buffer it was given ("Fallback to original image on error"), so the
  function itself never throws.
\<close>

definition removeWatermark :: "'w image_io \<Rightarrow> 'w \<Rightarrow> buffer \<Rightarrow> buffer \<times> 'w" where
  "removeWatermark io w imageBuffer =
     (case io_sharpCover io w imageBuffer of
        (Inr composed, w1) \<Rightarrow> (composed, w1)
      | (Inl error, w1) \<Rightarrow> (imageBuffer, w1))"

text \<open>\<^verbatim>\<open>url.split('/').pop()\<close> and \<^verbatim>\<open>parts[parts.length - 1]\<close>: the text after the last slash.\<close>

definition lastPathPart :: "jsstring \<Rightarrow> jsstring" where
  "lastPathPart url = rev (takeWhile (\<lambda>c. c \<noteq> 0x2F) (rev url))"

definition isFilenameChar :: "nat \<Rightarrow> bool" where
  "isFilenameChar c =
     ((0x61 \<le> c \<and> c \<le> 0x7A) \<or> (0x41 \<le> c \<and> c \<le> 0x5A) \<or> isDigit c
      \<or> c = 0x2E \<or> c = 0x5F \<or> c = 0x2D)"

fun collapseDashes :: "jsstring \<Rightarrow> jsstring" where
  "collapseDashes (c # d # cs) =
     (if c = 0x2D \<and> d = 0x2D then collapseDashes (d # cs) else c # collapseDashes (d # cs))"
| "collapseDashes cs = cs"

definition asciiLower :: "nat \<Rightarrow> nat" where
  "asciiLower c = (if 0x41 \<le> c \<and> c \<le> 0x5A then c + 0x20 else c)"

text \<open>\<^verbatim>\<open>generateImageFilename\<close>; \<open>stamp\<close> is the rendered \<^verbatim>\<open>${timestamp}-${random}\<close>.\<close>

definition generateImageFilename :: "jsstring \<Rightarrow> jsstring \<Rightarrow> jsstring" where
  "generateImageFilename stamp imageUrl =
     (let filename = takeWhile (\<lambda>c. c \<noteq> 0x3F) (lastPathPart imageUrl);
          cleaned = map asciiLower (collapseDashes
                      (map (\<lambda>c. if isFilenameChar c then c else 0x2D) filename))
      in ustr ''product-'' @ stamp @ ustr ''-'' @ cleaned)"

text \<open>\<^verbatim>\<open>processProductImage\<close>: a failed download is rethrown.\<close>

definition processProductImage ::
  "'w image_io \<Rightarrow> 'w \<Rightarrow> jsstring \<Rightarrow> (jsstring + buffer \<times> jsstring) \<times> 'w" where
  "processProductImage io w imageUrl =
     (case io_download io w imageUrl of
        (Inl error, w1) \<Rightarrow> (Inl error, w1)
      | (Inr originalBuffer, w1) \<Rightarrow>
          (case removeWatermark io w1 originalBuffer of
             (processedBuffer, w2) \<Rightarrow>
               (case io_stamp io w2 of
                  (stamp, w3) \<Rightarrow>
                    (Inr (processedBuffer, generateImageFilename stamp imageUrl), w3))))"

text \<open>
  An element of \<^verbatim>\<open>imageUrls\<close> is a string or an object with a \<^verbatim>\<open>src\<close> key;
  \<^verbatim>\<open>typeof img === 'string' ? img : img.src || img\<close> is a string unless the object's
  \<^verbatim>\<open>src\<close> is missing or empty (\<open>ImgObject []\<close>), when it is the object itself.
\<close>

datatype image_ref = ImgString jsstring | ImgObject jsstring

fun imageUrlOf :: "image_ref \<Rightarrow> jsstring option" where
  "imageUrlOf (ImgString s) = Some s"
| "imageUrlOf (ImgObject src) = (if src \<noteq> [] then Some src else None)"

text \<open>The URL text an element carries.\<close>

fun imageRefText :: "image_ref \<Rightarrow> jsstring" where
  "imageRefText (ImgString s) = s"
| "imageRefText (ImgObject src) = src"

record image_result =
  res_id :: "nat option"
  res_src :: jsstring
  res_filename :: jsstring
  res_originalUrl :: jsstring
  res_error :: "jsstring option"

datatype js_exception = TypeError

text \<open>The object pushed after a successful upload, and the one pushed by the handler.\<close>

definition uploadedResult :: "jsstring \<Rightarrow> uploaded_media \<Rightarrow> image_result" where
  "uploadedResult imageUrl uploaded =
     \<lparr> res_id = Some (up_id uploaded), res_src = up_source_url uploaded,
       res_filename = up_filename uploaded, res_originalUrl = imageUrl, res_error = None \<rparr>"

definition fallbackResult :: "jsstring \<Rightarrow> jsstring \<Rightarrow> image_result" where
  "fallbackResult imageUrl message =
     \<lparr> res_id = None, res_src = imageUrl, res_filename = lastPathPart imageUrl,
       res_originalUrl = imageUrl, res_error = Some message \<rparr>"

text \<open>The try block of the loop body and its handler, for a string \<^verbatim>\<open>imageUrl\<close>.\<close>

definition processOneImage :: "'w image_io \<Rightarrow> 'w \<Rightarrow> jsstring \<Rightarrow> image_result \<times> 'w" where
  "processOneImage io w imageUrl =
     (case processProductImage io w imageUrl of
        (Inl message, w1) \<Rightarrow> (fallbackResult imageUrl message, w1)
      | (Inr (processedBuffer, filename), w1) \<Rightarrow>
          (case io_uploadMedia io w1 processedBuffer filename of
             (Inl message, w2) \<Rightarrow> (fallbackResult imageUrl message, w2)
           | (Inr uploaded, w2) \<Rightarrow> (uploadedResult imageUrl uploaded, w2)))"

text \<open>
  The loop of \<^verbatim>\<open>processAndUploadImages\<close>, with \<^verbatim>\<open>results\<close> as accumulator. When
  \<^verbatim>\<open>imageUrl\<close> is not a string, \<^verbatim>\<open>generateImageFilename\<close> throws inside the try
  block at the latest, and the handler's own \<^verbatim>\<open>imageUrl.split('/')\<close> throws a
  TypeError that nothing catches.
\<close>

fun imagesLoop ::
  "'w image_io \<Rightarrow> 'w \<Rightarrow> image_ref list \<Rightarrow> image_result list
     \<Rightarrow> js_exception + image_result list" where
  "imagesLoop io w [] results = Inr results"
| "imagesLoop io w (img # rest) results =
     (case imageUrlOf img of
        None \<Rightarrow> Inl TypeError
      | Some imageUrl \<Rightarrow>
          (case processOneImage io w imageUrl of
             (result, w1) \<Rightarrow> imagesLoop io w1 rest (results @ [result])))"

definition processAndUploadImages ::
  "'w image_io \<Rightarrow> 'w \<Rightarrow> image_ref list \<Rightarrow> js_exception + image_result list" where
  "processAndUploadImages io w imageUrls =
     (if imageUrls = [] then Inr [] else imagesLoop io w imageUrls [])"

section \<open>The scrapers: vocabulary\<close>

definition BRAND :: jsstring where \<comment> \<open>U+0628 U+0631 U+0646 U+062F, "brand"\<close>
  "BRAND = [0x628, 0x631, 0x646, 0x62F]"

definition DASTEH :: jsstring where \<comment> \<open>U+062F U+0633 U+062A U+0647, "category"\<close>
  "DASTEH = [0x62F, 0x633, 0x62A, 0x647]"

definition GHEYMAT :: jsstring where \<comment> \<open>U+0642 U+06CC U+0645 U+062A, "price"\<close>
  "GHEYMAT = [0x642, 0x6CC, 0x645, 0x62A]"

definition MOJOOD :: jsstring where \<comment> \<open>U+0645 U+0648 U+062C U+0648 U+062F, "in stock"\<close>
  "MOJOOD = [0x645, 0x648, 0x62C, 0x648, 0x62F]"

definition TEDAD :: jsstring where \<comment> \<open>U+062A U+0639 U+062F U+0627 U+062F, "quantity"\<close>
  "TEDAD = [0x62A, 0x639, 0x62F, 0x627, 0x62F]"

definition AFZOODAN :: jsstring where \<comment> \<open>U+0627 U+0641 U+0632 U+0648 U+062F U+0646, "add (to cart)"\<close>
  "AFZOODAN = [0x627, 0x641, 0x632, 0x648, 0x62F, 0x646]"

definition POSHTIBANI :: jsstring where \<comment> \<open>U+067E U+0634 U+062A U+06CC U+0628 U+0627 U+0646 U+06CC, "support"\<close>
  "POSHTIBANI = [0x67E, 0x634, 0x62A, 0x6CC, 0x628, 0x627, 0x646, 0x6CC]"

definition MOTOR :: jsstring where \<comment> \<open>U+0645 U+0648 U+062A U+0648 U+0631, "motor"\<close>
  "MOTOR = [0x645, 0x648, 0x62A, 0x648, 0x631]"

definition SORAT :: jsstring where \<comment> \<open>U+0633 U+0631 U+0639 U+062A, "speed"\<close>
  "SORAT = [0x633, 0x631, 0x639, 0x62A]"

definition TIGHEH :: jsstring where \<comment> \<open>U+062A U+06CC U+063A U+0647, "blade"\<close>
  "TIGHEH = [0x62A, 0x6CC, 0x63A, 0x647]"

definition BATTERY :: jsstring where \<comment> \<open>U+0628 U+0627 U+062A U+0631 U+06CC, "battery"\<close>
  "BATTERY = [0x628, 0x627, 0x62A, 0x631, 0x6CC]"

definition SHARZH :: jsstring where \<comment> \<open>U+0634 U+0627 U+0631 U+0698, "charge"\<close>
  "SHARZH = [0x634, 0x627, 0x631, 0x698]"

definition VAZN :: jsstring where \<comment> \<open>U+0648 U+0632 U+0646, "weight"\<close>
  "VAZN = [0x648, 0x632, 0x646]"

definition ABAD :: jsstring where \<comment> \<open>U+0627 U+0628 U+0639 U+0627 U+062F, "dimensions"\<close>
  "ABAD = [0x627, 0x628, 0x639, 0x627, 0x62F]"

definition JENS :: jsstring where \<comment> \<open>U+062C U+0646 U+0633, "material"\<close>
  "JENS = [0x62C, 0x646, 0x633]"

definition DARAYE :: jsstring where \<comment> \<open>U+062F U+0627 U+0631 U+0627 U+06CC, "having"\<close>
  "DARAYE = [0x62F, 0x627, 0x631, 0x627, 0x6CC]"

definition MOJAHAZ :: jsstring where \<comment> \<open>U+0645 U+062C U+0647 U+0632, "equipped"\<close>
  "MOJAHAZ = [0x645, 0x62C, 0x647, 0x632]"

definition MONASEB :: jsstring where \<comment> \<open>U+0645 U+0646 U+0627 U+0633 U+0628, "suitable"\<close>
  "MONASEB = [0x645, 0x646, 0x627, 0x633, 0x628]"

definition TOOL :: jsstring where \<comment> \<open>U+0637 U+0648 U+0644, "length"\<close>
  "TOOL = [0x637, 0x648, 0x644]"

definition ZARFIAT :: jsstring where \<comment> \<open>U+0638 U+0631 U+0641 U+06CC U+062A, "capacity"\<close>
  "ZARFIAT = [0x638, 0x631, 0x641, 0x6CC, 0x62A]"

definition ZAMAN :: jsstring where \<comment> \<open>U+0632 U+0645 U+0627 U+0646, "time"\<close>
  "ZAMAN = [0x632, 0x645, 0x627, 0x646]"

definition TAVAN :: jsstring where \<comment> \<open>U+062A U+0648 U+0627 U+0646, "power"\<close>
  "TAVAN = [0x62A, 0x648, 0x627, 0x646]"

definition DARAD :: jsstring where \<comment> \<open>U+062F U+0627 U+0631 U+062F, "has"\<close>
  "DARAD = [0x62F, 0x627, 0x631, 0x62F]"

definition AST :: jsstring where \<comment> \<open>U+0627 U+0633 U+062A, "is"\<close>
  "AST = [0x627, 0x633, 0x62A]"

definition MI :: jsstring where \<comment> \<open>U+0645 U+06CC, "verbal prefix"\<close>
  "MI = [0x645, 0x6CC]"

definition BASHAD :: jsstring where \<comment> \<open>U+0628 U+0627 U+0634 U+062F, "be"\<close>
  "BASHAD = [0x628, 0x627, 0x634, 0x62F]"

text \<open>The stop-phrase alternations of the filters, as written at each place.\<close>

definition STOP6 :: "jsstring list" where \<comment> \<open>custom site, strategy 2\<close>
  "STOP6 = [BRAND, DASTEH, GHEYMAT, MOJOOD, TEDAD, AFZOODAN]"

definition STOP7 :: "jsstring list" where \<comment> \<open>strategies 3 and 6, and the terminators of the WordPress anchor\<close>
  "STOP7 = STOP6 @ [POSHTIBANI]"

definition STOP8 :: "jsstring list" where \<comment> \<open>strategy 5, and WordPress strategy 2\<close>
  "STOP8 = STOP7 @ [VIZHEGI]"

definition ENGLISH_STOPS :: "jsstring list" where
  "ENGLISH_STOPS = [ustr ''brand'', ustr ''category'', ustr ''price'', ustr ''stock'',
                    ustr ''add'', ustr ''support'']"

text \<open>The keyword alternations of the split lookaheads, as written at each place.\<close>

definition HINTS11 :: "jsstring list" where \<comment> \<open>WordPress strategy 2, and the paragraph test of strategy 6\<close>
  "HINTS11 = [MOTOR, SORAT, TIGHEH, BATTERY, SHARZH, VAZN, ABAD, JENS, DARAYE, MOJAHAZ, MONASEB]"

definition HINTS15 :: "jsstring list" where \<comment> \<open>WordPress strategy 5, whole short description\<close>
  "HINTS15 = HINTS11 @ [TOOL, ZARFIAT, ZAMAN, TAVAN]"

definition HINTS19 :: "jsstring list" where \<comment> \<open>WordPress strategy 5, after the label\<close>
  "HINTS19 = HINTS15 @ [DARAD, AST, MI, BASHAD]"

section \<open>The scrapers: regular expressions\<close>

text \<open>\<^verbatim>\<open>/^(w1|w2|...)/\<close> on \<open>s\<close>: some alternative is a prefix of \<open>s\<close>.\<close>

definition startsWithAny :: "jsstring list \<Rightarrow> jsstring \<Rightarrow> bool" where
  "startsWithAny ws s = list_ex (\<lambda>w. prefix w s) ws"

text \<open>\<^verbatim>\<open>[\<bullet>\-\*]\<close>: U+2022, hyphen-minus, asterisk.\<close>

definition isBullet :: "nat \<Rightarrow> bool" where
  "isBullet c = (c = 0x2022 \<or> c = 0x2D \<or> c = 0x2A)"

text \<open>
  The lookaheads of the split expressions, each a test on the text from the current
  position on: \<^verbatim>\<open>(?=\d+\.)\<close> (digits, greedily, then a dot) and \<^verbatim>\<open>(?=[\<bullet>\-\*])\<close>.
\<close>

definition numericMarkerAhead :: "jsstring \<Rightarrow> bool" where
  "numericMarkerAhead s =
     (takeWhile isDigit s \<noteq> [] \<and>
      (case dropWhile isDigit s of [] \<Rightarrow> False | d # _ \<Rightarrow> d = 0x2E))"

definition bulletAhead :: "jsstring \<Rightarrow> bool" where
  "bulletAhead s = (case s of [] \<Rightarrow> False | c # _ \<Rightarrow> isBullet c)"

text \<open>
  \<^verbatim>\<open>text.split(re)\<close> for the expressions used here, whose alternatives are a
  newline (only when \<open>nl\<close>) and zero-width lookaheads \<open>ahead\<close>. The algorithm of
  \<^verbatim>\<open>RegExp.prototype[Symbol.split]\<close> keeps the start \<open>p\<close> of the current piece and
  a scan position \<open>q\<close>: a match at \<open>q\<close> that ends at \<open>p\<close> (an empty match with
  nothing scanned since the last cut) is skipped, any other match at \<open>q\<close> closes the
  piece \<open>S[p..q)\<close> and restarts after the match, and the end of the text closes the
  last piece. Here \<open>cur\<close> is \<open>S[p..q)\<close> and the list argument is \<open>S[q..]\<close>.
\<close>

fun splitLoop :: "(jsstring \<Rightarrow> bool) \<Rightarrow> bool \<Rightarrow> jsstring \<Rightarrow> jsstring \<Rightarrow> jsstring list" where
  "splitLoop ahead nl cur [] = [cur]"
| "splitLoop ahead nl cur (c # cs) =
     (if nl \<and> c = 0xA then cur # splitLoop ahead nl [] cs
      else if ahead (c # cs) \<and> cur \<noteq> [] then cur # splitLoop ahead nl [c] cs
      else splitLoop ahead nl (cur @ [c]) cs)"

definition jsSplit :: "(jsstring \<Rightarrow> bool) \<Rightarrow> bool \<Rightarrow> jsstring \<Rightarrow> jsstring list" where
  "jsSplit ahead nl text = splitLoop ahead nl [] text"

text \<open>\<^verbatim>\<open>f.replace(/^\d+\.?\s*/, '')\<close> and \<^verbatim>\<open>f.replace(/^[\<bullet>\-\*]\s*/, '')\<close>\<close>

definition stripNumericMarker :: "jsstring \<Rightarrow> jsstring" where
  "stripNumericMarker f =
     (if takeWhile isDigit f = [] then f
      else (let afterDigits = dropWhile isDigit f;
                afterDot = (case afterDigits of [] \<Rightarrow> []
                            | d # ds \<Rightarrow> if d = 0x2E then ds else afterDigits)
            in dropWhile isWhiteSpace afterDot))"

fun stripBullet :: "jsstring \<Rightarrow> jsstring" where
  "stripBullet [] = []"
| "stripBullet (c # cs) = (if isBullet c then dropWhile isWhiteSpace cs else c # cs)"

text \<open>The \<^verbatim>\<open>.map(...)\<close> step shared by every text segmentation.\<close>

definition cleanSegment :: "jsstring \<Rightarrow> jsstring" where
  "cleanSegment f = trim (stripBullet (stripNumericMarker f))"

text \<open>The four split expressions.\<close>

definition customAhead :: "jsstring \<Rightarrow> bool" where
  "customAhead s = (numericMarkerAhead s \<or> bulletAhead s)"

definition wpAhead2 :: "jsstring \<Rightarrow> bool" where
  "wpAhead2 s = (numericMarkerAhead s \<or> bulletAhead s \<or> startsWithAny HINTS11 s)"

definition wpAhead5Label :: "jsstring \<Rightarrow> bool" where
  "wpAhead5Label s = (numericMarkerAhead s \<or> bulletAhead s \<or> startsWithAny HINTS19 s)"

definition wpAhead5Whole :: "jsstring \<Rightarrow> bool" where
  "wpAhead5Whole s = (numericMarkerAhead s \<or> bulletAhead s \<or> startsWithAny HINTS15 s)"

text \<open>
  The anchors. Every quantifier in them is followed by something its class excludes,
  or by a part that always matches, so the first attempt of the backtracking matcher
  is the match: each greedy class takes its longest run. An anchor function matches
  at the start of its argument and returns the text after \<^verbatim>\<open>[:\s]*\<close>.
\<close>

definition dropPrefix :: "jsstring \<Rightarrow> jsstring \<Rightarrow> jsstring option" where
  "dropPrefix p s = (if prefix p s then Some (drop (length p) s) else None)"

definition isJoinerOrSpace :: "nat \<Rightarrow> bool" where \<comment> \<open>the class of U+200C and \<^verbatim>\<open>\s\<close>\<close>
  "isJoinerOrSpace c = (c = 0x200C \<or> isWhiteSpace c)"

definition isColonOrSpace :: "nat \<Rightarrow> bool" where
  "isColonOrSpace c = (c = 0x3A \<or> isWhiteSpace c)"

definition persianAnchor :: "jsstring \<Rightarrow> jsstring option" where
  "persianAnchor s =
     (case dropPrefix VIZHEGI s of
        None \<Rightarrow> None
      | Some s1 \<Rightarrow>
          (case dropPrefix HAYE (dropWhile isJoinerOrSpace s1) of
             None \<Rightarrow> None
           | Some s2 \<Rightarrow>
               (case dropPrefix MAHSUL (dropWhile isJoinerOrSpace s2) of
                  None \<Rightarrow> None
                | Some s3 \<Rightarrow> Some (dropWhile isColonOrSpace s3))))"

text \<open>
  The flag \<^verbatim>\<open>i\<close> compares canonicalised code units. No character canonicalises to
  a Persian letter but itself, and only the two ASCII cases of a letter canonicalise
  to an ASCII letter, so the flag matters for the English patterns alone, where it is
  ASCII case folding.
\<close>

definition asciiUpper :: "nat \<Rightarrow> nat" where
  "asciiUpper c = (if 0x61 \<le> c \<and> c \<le> 0x7A then c - 0x20 else c)"

definition prefixCI :: "jsstring \<Rightarrow> jsstring \<Rightarrow> bool" where
  "prefixCI p s = prefix (map asciiUpper p) (map asciiUpper s)"

definition englishAnchor :: "jsstring \<Rightarrow> jsstring option" where
  "englishAnchor s =
     (if prefixCI (ustr ''feature'') s then
        (let s1 = drop 7 s;
             s2 = (case s1 of [] \<Rightarrow> [] | c # cs \<Rightarrow> if asciiUpper c = 0x53 then cs else s1)
         in Some (dropWhile isColonOrSpace s2))
      else None)"

text \<open>\<^verbatim>\<open>text.match(re)\<close> without the flag \<^verbatim>\<open>g\<close>: the match at the leftmost start.\<close>

fun firstMatch :: "(jsstring \<Rightarrow> 'a option) \<Rightarrow> jsstring \<Rightarrow> 'a option" where
  "firstMatch m [] = m []"
| "firstMatch m (c # cs) = (case m (c # cs) of Some r \<Rightarrow> Some r | None \<Rightarrow> firstMatch m cs)"

text \<open>
  \<^verbatim>\<open>([\s\S]*?)(?:T|$)\<close>: the lazy group grows one code unit at a time until a
  terminator \<open>T\<close> matches where it stands, or the text ends.
\<close>

fun lazyUntil :: "(jsstring \<Rightarrow> bool) \<Rightarrow> jsstring \<Rightarrow> jsstring" where
  "lazyUntil terminator [] = []"
| "lazyUntil terminator (c # cs) =
     (if terminator (c # cs) then [] else c # lazyUntil terminator cs)"

text \<open>
  \<^verbatim>\<open>\n\s*\n\s*\n\<close> matches where a newline stands and the white space that follows it
  holds two more newlines.
\<close>

definition blankLinesAhead :: "jsstring \<Rightarrow> bool" where
  "blankLinesAhead s =
     (case s of
        [] \<Rightarrow> False
      | c # r \<Rightarrow> c = 0xA \<and> 2 \<le> length (filter (\<lambda>d. d = 0xA) (takeWhile isWhiteSpace r)))"

definition wpPersianTerminator :: "jsstring \<Rightarrow> bool" where
  "wpPersianTerminator s = (blankLinesAhead s \<or> startsWithAny STOP7 s)"

definition wpEnglishTerminator :: "jsstring \<Rightarrow> bool" where
  "wpEnglishTerminator s = (blankLinesAhead s \<or> list_ex (\<lambda>w. prefixCI w s) ENGLISH_STOPS)"

text \<open>\<^verbatim>\<open>\n\n|\n[^\d]\<close>\<close>

definition customTerminator :: "jsstring \<Rightarrow> bool" where
  "customTerminator s =
     (case s of
        c # d # _ \<Rightarrow> c = 0xA \<and> (d = 0xA \<or> \<not> isDigit d)
      | _ \<Rightarrow> False)"

text \<open>
  \<^verbatim>\<open>text.match(persian) || text.match(english)\<close>, reduced to capture group 1 of the
  match object (\<open>None\<close> when both are null). A Persian match with an empty group is
  still a match object, so the English expression is not tried then.
\<close>

definition labeledMatch ::
  "(jsstring \<Rightarrow> bool) \<Rightarrow> (jsstring \<Rightarrow> bool) \<Rightarrow> jsstring \<Rightarrow> jsstring option" where
  "labeledMatch persianTerminator englishTerminator text =
     (case firstMatch persianAnchor text of
        Some rest \<Rightarrow> Some (lazyUntil persianTerminator rest)
      | None \<Rightarrow>
          (case firstMatch englishAnchor text of
             Some rest \<Rightarrow> Some (lazyUntil englishTerminator rest)
           | None \<Rightarrow> None))"

section \<open>The scrapers: what the browser is asked\<close>

text \<open>
  The scrapers run inside the page and query its DOM. The answers of the browser are
  the input of the model: for an element matched by \<^verbatim>\<open>querySelectorAll\<close> its
  \<^verbatim>\<open>textContent\<close> and whether \<^verbatim>\<open>isInExcludedSection\<close> holds of it; for the element
  found as \<^verbatim>\<open>featuresList\<close> the items that strategy 4 selects inside it; for an HTML
  string the items that parsing it into \<^verbatim>\<open>tempDiv\<close> and selecting yields.
\<close>

record dom_item =
  item_text :: jsstring
  item_excluded :: bool

record dom_element =
  el_excluded :: bool
  el_items :: "dom_item list"

text \<open>\<^verbatim>\<open>querySelector(selector)\<close>: it throws on a selector the browser does not support.\<close>

datatype query_result = QueryThrows | QueryResult "dom_element option"

record html_parser =
  selectFeatureLike :: "jsstring \<Rightarrow> dom_item list"
    \<comment> \<open>\<^verbatim>\<open>'li, .feature-item, [class*="feature"], dt, dd, p'\<close>\<close>
  selectListItems :: "jsstring \<Rightarrow> jsstring list"
    \<comment> \<open>\<^verbatim>\<open>'ol li, ul li'\<close>, the \<^verbatim>\<open>textContent\<close> of each\<close>
  selectParagraphs :: "jsstring \<Rightarrow> jsstring list"
    \<comment> \<open>\<^verbatim>\<open>'p'\<close>, the \<^verbatim>\<open>textContent\<close> of each\<close>

text \<open>The final clean-up shared by both scrapers: \<^verbatim>\<open>[...new Set(features.filter(f => f && f.length > 3))]\<close>\<close>

definition cleanup :: "jsstring list \<Rightarrow> jsstring list" where
  "cleanup features = newSet (filter (\<lambda>f. f \<noteq> [] \<and> length f > 3) features)"

section \<open>scrapeWordPressSite: features\<close>

record wp_page =
  wp_description :: jsstring
  wp_short_description :: jsstring
  wp_containerText :: jsstring
  wp_selectorHits :: "query_result list"
    \<comment> \<open>the answers to \<^verbatim>\<open>featureSelectors\<close>, in order, as far as the loop asks\<close>

text \<open>
  Strategy 1 only looks for the element: the loop over \<^verbatim>\<open>featureSelectors\<close> assigns
  each answer to \<^verbatim>\<open>featuresList\<close> and stops at the first element outside the excluded
  sections.
\<close>

fun wpLocate :: "query_result list \<Rightarrow> dom_element option \<Rightarrow> dom_element option" where
  "wpLocate [] featuresList = featuresList"
| "wpLocate (QueryThrows # rest) featuresList = wpLocate rest featuresList"
| "wpLocate (QueryResult None # rest) featuresList = wpLocate rest None"
| "wpLocate (QueryResult (Some el) # rest) featuresList =
     (if \<not> el_excluded el then Some el else wpLocate rest (Some el))"

definition wpSegmentLabeled :: "jsstring \<Rightarrow> jsstring list" where
  "wpSegmentLabeled featuresText =
     filter (\<lambda>f. length f > 3 \<and> \<not> (startsWithAny STOP8 f \<or> f = []))
       (map cleanSegment (jsSplit wpAhead2 True featuresText))"

definition wpStrategy2 :: "wp_page \<Rightarrow> jsstring list \<Rightarrow> jsstring list" where
  "wpStrategy2 page features =
     (case labeledMatch wpPersianTerminator wpEnglishTerminator (wp_containerText page) of
        None \<Rightarrow> features
      | Some group1 \<Rightarrow>
          if group1 \<noteq> [] then
            (let found = wpSegmentLabeled (trim group1)
             in if found \<noteq> [] then found else features)
          else features)"

definition wpStrategy3 :: "html_parser \<Rightarrow> wp_page \<Rightarrow> jsstring list \<Rightarrow> jsstring list" where
  "wpStrategy3 parser page features =
     (if features = [] then
        (let descHTML = (if wp_description page \<noteq> [] then wp_description page
                         else wp_short_description page)
         in if descHTML \<noteq> [] then
              features @
              map (\<lambda>item. trim (item_text item))
                (filter (\<lambda>item. let featureText = trim (item_text item)
                                  in featureText \<noteq> [] \<and> length featureText > 3 \<and>
                                     \<not> startsWithAny STOP7 featureText \<and>
                                     \<not> item_excluded item)
                   (selectFeatureLike parser descHTML))
            else features)
      else features)"

definition wpStrategy4 :: "dom_element option \<Rightarrow> jsstring list \<Rightarrow> jsstring list" where
  "wpStrategy4 featuresList features =
     (case featuresList of
        None \<Rightarrow> features
      | Some el \<Rightarrow>
          if features = [] then
            features @
            map (\<lambda>item. trim (item_text item))
              (filter (\<lambda>item. let featureText = trim (item_text item)
                                in featureText \<noteq> [] \<and> length featureText > 3 \<and>
                                   \<not> item_excluded item)
                 (el_items el))
          else features)"

definition wpSegmentShortLabel :: "jsstring \<Rightarrow> jsstring list" where
  "wpSegmentShortLabel featuresText =
     filter (\<lambda>f. length f > 5 \<and> \<not> (startsWithAny STOP8 f \<or> f = []))
       (map cleanSegment (jsSplit wpAhead5Label False featuresText))"

definition wpSegmentShortWhole :: "jsstring \<Rightarrow> jsstring list" where
  "wpSegmentShortWhole shortDescText =
     filter (\<lambda>l. length l > 5 \<and> \<not> (startsWithAny STOP8 l \<or> l = []))
       (map cleanSegment (jsSplit wpAhead5Whole False shortDescText))"

definition wpStrategy5 :: "wp_page \<Rightarrow> jsstring list \<Rightarrow> jsstring list" where
  "wpStrategy5 page features =
     (if features = [] \<and> wp_short_description page \<noteq> [] then
        (case firstMatch persianAnchor (wp_short_description page) of
           Some rest \<Rightarrow>
             (let found = wpSegmentShortLabel (trim rest)
              in if found \<noteq> [] then found else features)
         | None \<Rightarrow>
             (let lines = wpSegmentShortWhole (wp_short_description page)
              in if lines \<noteq> [] then lines else features))
      else features)"

text \<open>
  The paragraph test of strategy 6,
  \<^verbatim>\<open>/^\d+\.|^[\<bullet>\-\*]|keyword|.../\<close>: only the first two alternatives are anchored.
\<close>

definition looksLikeFeature :: "jsstring \<Rightarrow> bool" where
  "looksLikeFeature text =
     (numericMarkerAhead text \<or> bulletAhead text \<or> list_ex (includesStr text) HINTS11)"

definition wpStrategy6 :: "html_parser \<Rightarrow> wp_page \<Rightarrow> jsstring list \<Rightarrow> jsstring list" where
  "wpStrategy6 parser page features =
     (if features = [] \<and> wp_description page \<noteq> [] then
        (let fromLists = features @
               filter (\<lambda>featureText. featureText \<noteq> [] \<and> length featureText > 3 \<and>
                                      \<not> startsWithAny STOP7 featureText)
                 (map trim (selectListItems parser (wp_description page)))
         in if fromLists = [] then
              fromLists @
              filter (\<lambda>text. looksLikeFeature text \<and> length text > 5 \<and>
                              \<not> startsWithAny STOP7 text)
                (map trim (selectParagraphs parser (wp_description page)))
            else fromLists)
      else features)"

text \<open>The features block of \<^verbatim>\<open>scrapeWordPressSite\<close> (lines 216-354), from \<^verbatim>\<open>features: []\<close>.\<close>

definition wpRawFeatures :: "html_parser \<Rightarrow> wp_page \<Rightarrow> jsstring list" where
  "wpRawFeatures parser page =
     (let featuresList = wpLocate (wp_selectorHits page) None
      in wpStrategy6 parser page
           (wpStrategy5 page
              (wpStrategy4 featuresList
                 (wpStrategy3 parser page
                    (wpStrategy2 page [])))))"

definition scrapeWordPressFeatures :: "html_parser \<Rightarrow> wp_page \<Rightarrow> jsstring list" where
  "scrapeWordPressFeatures parser page = cleanup (wpRawFeatures parser page)"

section \<open>scrapeCustomSite: features\<close>

record custom_page =
  cu_description :: jsstring
  cu_short_description :: jsstring
  cu_allText :: jsstring
  cu_selectorHits :: "query_result list"
  cu_descPro :: "dom_element option"
    \<comment> \<open>\<^verbatim>\<open>document.querySelector('.desc-pro')\<close>\<close>

fun customLocate :: "query_result list \<Rightarrow> dom_element option \<Rightarrow> dom_element option" where
  "customLocate [] featuresList = featuresList"
| "customLocate (QueryThrows # rest) featuresList = customLocate rest featuresList"
| "customLocate (QueryResult None # rest) featuresList = customLocate rest None"
| "customLocate (QueryResult (Some el) # rest) featuresList = Some el"

definition customSegmentLabeled :: "jsstring \<Rightarrow> jsstring list" where
  "customSegmentLabeled featuresText =
     filter (\<lambda>f. length f > 3 \<and> \<not> startsWithAny STOP6 f)
       (map cleanSegment (jsSplit customAhead True featuresText))"

definition customStrategy2 :: "custom_page \<Rightarrow> jsstring list \<Rightarrow> jsstring list" where
  "customStrategy2 page features =
     (case labeledMatch customTerminator customTerminator (cu_allText page) of
        None \<Rightarrow> features
      | Some group1 \<Rightarrow>
          if group1 \<noteq> [] then
            (let found = customSegmentLabeled (trim group1)
             in if found \<noteq> [] then found else features)
          else features)"

definition customStrategy3 :: "html_parser \<Rightarrow> custom_page \<Rightarrow> jsstring list \<Rightarrow> jsstring list" where
  "customStrategy3 parser page features =
     (if features = [] then
        (let descHTML = (if cu_description page \<noteq> [] then cu_description page
                         else cu_short_description page)
         in if descHTML \<noteq> [] then
              features @
              filter (\<lambda>featureText. featureText \<noteq> [] \<and> length featureText > 3 \<and>
                                      \<not> startsWithAny STOP7 featureText)
                (map (\<lambda>item. trim (item_text item)) (selectFeatureLike parser descHTML))
            else features)
      else features)"

definition customStrategy4 :: "dom_element option \<Rightarrow> jsstring list \<Rightarrow> jsstring list" where
  "customStrategy4 featuresList features =
     (case featuresList of
        None \<Rightarrow> features
      | Some el \<Rightarrow>
          if features = [] then
            features @
            filter (\<lambda>featureText. featureText \<noteq> [] \<and> length featureText > 3)
              (map (\<lambda>item. trim (item_text item)) (el_items el))
          else features)"

definition customSegmentShort :: "jsstring \<Rightarrow> jsstring list" where
  "customSegmentShort shortDescText =
     filter (\<lambda>l. length l > 5 \<and> \<not> startsWithAny STOP8 l)
       (map cleanSegment (jsSplit customAhead True shortDescText))"

definition customStrategy5 :: "custom_page \<Rightarrow> jsstring list \<Rightarrow> jsstring list" where
  "customStrategy5 page features =
     (if features = [] \<and> cu_short_description page \<noteq> [] then
        (let lines = customSegmentShort (cu_short_description page)
         in if lines \<noteq> [] then lines else features)
      else features)"

text \<open>The features block of \<^verbatim>\<open>scrapeCustomSite\<close> (lines 204-291).\<close>

definition customFeaturesList :: "custom_page \<Rightarrow> dom_element option" where
  "customFeaturesList page =
     (case customLocate (cu_selectorHits page) None of
        Some el \<Rightarrow> Some el
      | None \<Rightarrow> cu_descPro page)"

definition customRawFeatures :: "html_parser \<Rightarrow> custom_page \<Rightarrow> jsstring list" where
  "customRawFeatures parser page =
     customStrategy5 page
       (customStrategy4 (customFeaturesList page)
          (customStrategy3 parser page
             (customStrategy2 page [])))"

definition scrapeCustomFeatures :: "html_parser \<Rightarrow> custom_page \<Rightarrow> jsstring list" where
  "scrapeCustomFeatures parser page = cleanup (customRawFeatures parser page)"

section \<open>Pages used as examples\<close>

definition labelThenItemText :: jsstring where \<comment> \<open>the label and a colon, a newline, then: motor strong with speed high\<close>
  "labelThenItemText =
     [0x648, 0x6CC, 0x698, 0x6AF, 0x6CC, 0x20, 0x647, 0x627, 0x6CC, 0x20, 0x645, 0x62D,
      0x635, 0x648, 0x644, 0x3A, 0xA, 0x645, 0x648, 0x62A, 0x648, 0x631, 0x20, 0x642,
      0x648, 0x6CC, 0x20, 0x628, 0x627, 0x20, 0x633, 0x631, 0x639, 0x62A, 0x20, 0x628,
      0x627, 0x644, 0x627]"

definition motorSpeedItem :: jsstring where \<comment> \<open>motor strong with speed high (one list item)\<close>
  "motorSpeedItem =
     [0x645, 0x648, 0x62A, 0x648, 0x631, 0x20, 0x642, 0x648, 0x6CC, 0x20, 0x628, 0x627,
      0x20, 0x633, 0x631, 0x639, 0x62A, 0x20, 0x628, 0x627, 0x644, 0x627]"

definition motorPart :: jsstring where \<comment> \<open>motor strong with\<close>
  "motorPart =
     [0x645, 0x648, 0x62A, 0x648, 0x631, 0x20, 0x642, 0x648, 0x6CC, 0x20, 0x628, 0x627]"

definition speedPart :: jsstring where \<comment> \<open>speed high\<close>
  "speedPart =
     [0x633, 0x631, 0x639, 0x62A, 0x20, 0x628, 0x627, 0x644, 0x627]"

definition brandItem :: jsstring where \<comment> \<open>brand: Samsung\<close>
  "brandItem =
     [0x628, 0x631, 0x646, 0x62F, 0x3A, 0x20, 0x633, 0x627, 0x645, 0x633, 0x648, 0x646,
      0x6AF]"

definition weightItem :: jsstring where \<comment> \<open>weight 150 gram\<close>
  "weightItem =
     [0x648, 0x632, 0x646, 0x20, 0x31, 0x35, 0x30, 0x20, 0x6AF, 0x631, 0x645]"


definition strongMotor :: jsstring where \<comment> \<open>motor strong\<close>
  "strongMotor =
     [0x645, 0x648, 0x62A, 0x648, 0x631, 0x20, 0x642, 0x648, 0x6CC]"



text \<open>A parser for HTML strings that hold no element at all.\<close>

definition plainTextParser :: html_parser where
  "plainTextParser =
     \<lparr> selectFeatureLike = (\<lambda>html. []), selectListItems = (\<lambda>html. []),
       selectParagraphs = (\<lambda>html. []) \<rparr>"

text \<open>
  A product page whose heading is the label and whose features list has one item:
  \<^verbatim>\<open><h3>LABEL:</h3><ul class="features"><li>ITEM</li></ul>\<close>.
\<close>

definition labelAndListElement :: dom_element where
  "labelAndListElement =
     \<lparr> el_excluded = False,
       el_items = [\<lparr> item_text = motorSpeedItem, item_excluded = False \<rparr>] \<rparr>"

definition labelAndListPage :: wp_page where
  "labelAndListPage =
     \<lparr> wp_description = [], wp_short_description = [],
       wp_containerText = labelThenItemText,
       wp_selectorHits = [QueryResult None, QueryResult (Some labelAndListElement)] \<rparr>"

definition dashItem :: jsstring where \<comment> \<open>motor strong - speed high (one list item)\<close>
  "dashItem =
     [0x645, 0x648, 0x62A, 0x648, 0x631, 0x20, 0x642, 0x648, 0x6CC, 0x20, 0x2D, 0x20,
      0x633, 0x631, 0x639, 0x62A, 0x20, 0x628, 0x627, 0x644, 0x627]"

text \<open>
  The same kind of page on a custom site:
  \<^verbatim>\<open><h3>LABEL:</h3><ul class="features"><li>motor strong - speed high</li></ul>\<close>.
\<close>

definition labelAndListCustomPage :: custom_page where
  "labelAndListCustomPage =
     \<lparr> cu_description = [], cu_short_description = [],
       cu_allText = FEATURES_LABEL @ [0x3A, 0xA] @ dashItem,
       cu_selectorHits = [QueryResult None,
                          QueryResult (Some \<lparr> el_excluded = False,
                            el_items = [\<lparr> item_text = dashItem, item_excluded = False \<rparr>] \<rparr>)],
       cu_descPro = None \<rparr>"

text \<open>
  A product page with nothing but a specification list:
  \<^verbatim>\<open><ul class="specs"><li>brand: Samsung</li><li>weight 150 gram</li></ul>\<close>.
\<close>

definition specListElement :: dom_element where
  "specListElement =
     \<lparr> el_excluded = False,
       el_items = [\<lparr> item_text = brandItem, item_excluded = False \<rparr>,
                   \<lparr> item_text = weightItem, item_excluded = False \<rparr>] \<rparr>"

definition specListPage :: wp_page where
  "specListPage =
     \<lparr> wp_description = [], wp_short_description = [],
       wp_containerText = brandItem @ [0xA] @ weightItem,
       wp_selectorHits = [QueryResult None, QueryResult None, QueryResult None,
                          QueryResult (Some specListElement)] \<rparr>"

definition specListCustomPage :: custom_page where
  "specListCustomPage =
     \<lparr> cu_description = [], cu_short_description = [],
       cu_allText = brandItem @ [0xA] @ weightItem,
       cu_selectorHits = [QueryResult None, QueryResult None, QueryResult None,
                          QueryResult (Some specListElement)],
       cu_descPro = None \<rparr>"

text \<open>The answers on a page where none of the twelve (ten) selectors matches.\<close>

definition noFeaturesListWp :: "query_result list" where
  "noFeaturesListWp =
     [QueryResult None, QueryResult None, QueryResult None, QueryResult None,
      QueryResult None, QueryResult None, QueryResult None, QueryResult None,
      QueryResult None, QueryResult None, QueryResult None, QueryResult None]"

definition noFeaturesListCustom :: "query_result list" where
  "noFeaturesListCustom =
     [QueryResult None, QueryResult None, QueryResult None, QueryResult None,
      QueryResult None, QueryResult None, QueryResult None, QueryResult None,
      QueryResult None, QueryResult None]"






section \<open>Further examples and the invariants of a feature list\<close>

text \<open>
  What the specification's data model asks of a FeatureList and the mapper leans on:
  entries are trimmed and not empty, and no entry occurs twice.
\<close>

definition isFeatureList :: "jsstring list \<Rightarrow> bool" where
  "isFeatureList fs = (distinct fs \<and> list_all (\<lambda>f. f \<noteq> [] \<and> trim f = f) fs)"

definition noReads :: wc_reads where
  "noReads = \<lparr> getExistingCategory = (\<lambda>name. None), skuLookup = (\<lambda>sku. SkuFree) \<rparr>"

definition twoFeatures :: "jsstring list" where
  "twoFeatures = [ustr ''Fast charging'', ustr ''Waterproof'']"

definition sixFeatures :: "jsstring list" where
  "sixFeatures = [ustr ''one1'', ustr ''two2'', ustr ''three'', ustr ''four'', ustr ''five'',
                  ustr ''six6'']"

text \<open>Scraped data whose description has 701 code units and whose short description has 201.\<close>

definition longTextProduct :: product_data where
  "longTextProduct =
     \<lparr> pd_name = ustr ''Trimmer'', pd_description = replicate 701 0x61,
       pd_short_description = replicate 201 0x62, pd_regular_price = [], pd_sale_price = [],
       pd_sku = [], pd_images = [], pd_categories = [], pd_features = twoFeatures \<rparr>"

definition shortTextProduct :: product_data where
  "shortTextProduct =
     \<lparr> pd_name = ustr ''Trimmer'', pd_description = ustr ''<p>Solid.</p>'',
       pd_short_description = [], pd_regular_price = [], pd_sale_price = [],
       pd_sku = [], pd_images = [], pd_categories = [], pd_features = twoFeatures \<rparr>"

text \<open>
  Two worlds for the image pipeline: in one every download and upload succeeds and
  the sharp library rejects every buffer; in the other no download succeeds.
\<close>

definition sharpFailsIo :: "nat image_io" where
  "sharpFailsIo =
     \<lparr> io_download = (\<lambda>w url. (Inr [0xFF, 0xD8], Suc w)),
       io_sharpCover = (\<lambda>w b. (Inl (ustr ''Input buffer contains unsupported image format''), Suc w)),
       io_stamp = (\<lambda>w. (ustr ''1700000000000-42'', Suc w)),
       io_uploadMedia = (\<lambda>w b filename.
          (Inr \<lparr> up_id = 7, up_source_url = ustr ''https://shop.example/uploads/a.jpg'',
                  up_filename = filename \<rparr>, Suc w)) \<rparr>"

definition offlineIo :: "nat image_io" where
  "offlineIo =
     \<lparr> io_download = (\<lambda>w url. (Inl (ustr ''getaddrinfo ENOTFOUND''), Suc w)),
       io_sharpCover = (\<lambda>w b. (Inr b, Suc w)),
       io_stamp = (\<lambda>w. (ustr ''1700000000000-42'', Suc w)),
       io_uploadMedia = (\<lambda>w b filename.
          (Inr \<lparr> up_id = 7, up_source_url = ustr ''https://shop.example/uploads/a.jpg'',
                  up_filename = filename \<rparr>, Suc w)) \<rparr>"

definition sourceImageUrl :: jsstring where
  "sourceImageUrl = ustr ''https://src.example/img/A.JPG''"

section \<open>Removing duplicates\<close>

lemma removeAll_filter_conv: "removeAll x (filter P xs) = filter (\<lambda>y. y \<noteq> x \<and> P y) xs"
  by (induction xs) auto

lemma set_keepFirst: "set (keepFirst xs) = set xs"
proof (induction xs rule: keepFirst.induct)
  case 1
  show ?case by simp
next
  case (2 x xs)
  then show ?case by auto
qed

lemma distinct_keepFirst: "distinct (keepFirst xs)"
proof (induction xs rule: keepFirst.induct)
  case 1
  show ?case by simp
next
  case (2 x xs)
  then show ?case by (simp add: set_keepFirst)
qed

lemma subseq_removeAll: "subseq (removeAll x xs) xs"
  by (induction xs) auto

lemma subseq_keepFirst: "subseq (keepFirst xs) xs"
proof (induction xs rule: keepFirst.induct)
  case 1
  show ?case by simp
next
  case (2 x xs)
  have "subseq (keepFirst (removeAll x xs)) (removeAll x xs)" by (rule "2.IH")
  then have "subseq (keepFirst (removeAll x xs)) xs"
    by (rule subseq_order.order_trans) (rule subseq_removeAll)
  then show ?case by simp
qed

lemma keepFirst_distinct: "distinct xs \<Longrightarrow> keepFirst xs = xs"
  by (induction xs) (simp_all add: removeAll_id)

lemma setAdd_in: "x \<in> set s \<Longrightarrow> setAdd s x = s"
  by (simp add: setAdd_def)

lemma setAdd_notin: "x \<notin> set s \<Longrightarrow> setAdd s x = s @ [x]"
  by (simp add: setAdd_def)

lemma foldl_setAdd:
  "foldl setAdd acc xs = acc @ keepFirst (filter (\<lambda>x. x \<notin> set acc) xs)"
proof (induction xs arbitrary: acc)
  case Nil
  show ?case by simp
next
  case (Cons x xs)
  show ?case
  proof (cases "x \<in> set acc")
    case True
    then show ?thesis by (simp add: setAdd_in Cons.IH)
  next
    case False
    have "filter (\<lambda>y. y \<notin> set (acc @ [x])) xs = removeAll x (filter (\<lambda>y. y \<notin> set acc) xs)"
      by (simp add: removeAll_filter_conv)
    with False show ?thesis by (simp add: setAdd_notin Cons.IH)
  qed
qed

lemma newSet_keepFirst: "newSet xs = keepFirst xs"
  by (simp add: newSet_def foldl_setAdd)

lemma indexOf_append_notin:
  "f \<notin> set pre \<Longrightarrow> indexOf (pre @ f # xs) f = Some (length pre)"
  by (induction pre) auto

lemma indexOf_append_in:
  "f \<in> set pre \<Longrightarrow> indexOf (pre @ xs) f = indexOf pre f"
  by (induction pre) auto

lemma indexOf_lt: "indexOf xs f = Some i \<Longrightarrow> i < length xs"
  by (induction xs arbitrary: i) (auto split: if_splits)

lemma uniq_aux:
  "map fst (filter (\<lambda>(f, index). indexOf (pre @ xs) f = Some index)
              (zip xs [length pre..<length pre + length xs]))
   = keepFirst (filter (\<lambda>x. x \<notin> set pre) xs)"
proof (induction xs arbitrary: pre)
  case Nil
  show ?case by simp
next
  case (Cons x xs)
  have range: "[length pre..<length pre + length (x # xs)]
               = length pre # [length (pre @ [x])..<length (pre @ [x]) + length xs]"
    by (simp add: upt_rec)
  have ih: "map fst (filter (\<lambda>(f, index). indexOf (pre @ x # xs) f = Some index)
              (zip xs [length (pre @ [x])..<length (pre @ [x]) + length xs]))
            = keepFirst (filter (\<lambda>y. y \<notin> set (pre @ [x])) xs)"
    using Cons.IH [of "pre @ [x]"] by simp
  show ?case
  proof (cases "x \<in> set pre")
    case True
    then have "indexOf (pre @ x # xs) x \<noteq> Some (length pre)"
      using indexOf_lt [of pre x] by (auto simp: indexOf_append_in)
    moreover from True have "filter (\<lambda>y. y \<notin> set (pre @ [x])) xs = filter (\<lambda>y. y \<notin> set pre) xs"
      by (intro filter_cong) auto
    ultimately show ?thesis using True ih by (simp add: upt_conv_Cons del: upt_Suc)
  next
    case False
    then have "indexOf (pre @ x # xs) x = Some (length pre)"
      by (rule indexOf_append_notin)
    moreover have "filter (\<lambda>y. y \<notin> set (pre @ [x])) xs = removeAll x (filter (\<lambda>y. y \<notin> set pre) xs)"
      by (simp add: removeAll_filter_conv)
    ultimately show ?thesis using False ih by (simp add: upt_conv_Cons del: upt_Suc)
  qed
qed

lemma uniqueByIndexOf_keepFirst: "uniqueByIndexOf xs = keepFirst xs"
  using uniq_aux [of "[]" xs] by (simp add: uniqueByIndexOf_def)

lemma cleanup_keepFirst: "cleanup raw = keepFirst (filter (\<lambda>f. length f > 3) raw)"
proof -
  have "filter (\<lambda>f. f \<noteq> [] \<and> length f > 3) raw = filter (\<lambda>f. length f > 3) raw"
    by (intro filter_cong) auto
  then show ?thesis by (simp add: cleanup_def newSet_keepFirst)
qed

lemma cleanFeatures_keepFirst:
  "cleanFeatures fs = keepFirst (filter (\<lambda>f. f \<noteq> []) (map trim fs))"
  by (simp add: cleanFeatures_def uniqueByIndexOf_keepFirst)

lemma subseq_keepFirst_filter: "subseq (keepFirst (filter P xs)) xs"
  by (rule subseq_order.order_trans [OF subseq_keepFirst subseq_filter_left])

text \<open>
  C3. Every produced feature list is free of duplicates under equality of strings:
  its length is the size of the set of its entries, it is the list before the removal
  of duplicates with exactly the first occurrence of each string kept, and it is a
  subsequence of that list, so the order of the survivors is unchanged. This holds
  for the result of both scrapers and for the list \<^verbatim>\<open>allFeatures\<close> of the uploader,
  whose entries are the trimmed ones.
\<close>

theorem features_duplicate_free:
  "distinct (scrapeWordPressFeatures parser wpage)
   \<and> length (scrapeWordPressFeatures parser wpage) = card (set (scrapeWordPressFeatures parser wpage))
   \<and> scrapeWordPressFeatures parser wpage
       = keepFirst (filter (\<lambda>f. length f > 3) (wpRawFeatures parser wpage))
   \<and> subseq (scrapeWordPressFeatures parser wpage) (wpRawFeatures parser wpage)
   \<and> distinct (scrapeCustomFeatures parser cpage)
   \<and> length (scrapeCustomFeatures parser cpage) = card (set (scrapeCustomFeatures parser cpage))
   \<and> scrapeCustomFeatures parser cpage
       = keepFirst (filter (\<lambda>f. length f > 3) (customRawFeatures parser cpage))
   \<and> subseq (scrapeCustomFeatures parser cpage) (customRawFeatures parser cpage)
   \<and> distinct (cleanFeatures fs)
   \<and> length (cleanFeatures fs) = card (set (cleanFeatures fs))
   \<and> cleanFeatures fs = keepFirst (filter (\<lambda>f. f \<noteq> []) (map trim fs))
   \<and> subseq (cleanFeatures fs) (map trim fs)"
  by (simp add: scrapeWordPressFeatures_def scrapeCustomFeatures_def cleanup_keepFirst
        cleanFeatures_keepFirst distinct_keepFirst distinct_card subseq_keepFirst_filter)

lemma cleanFeatures_FeatureList:
  assumes "isFeatureList fs"
  shows "cleanFeatures fs = fs"
proof -
  from assms have d: "distinct fs" and a: "list_all (\<lambda>f. f \<noteq> [] \<and> trim f = f) fs"
    by (simp_all add: isFeatureList_def)
  from a have "map trim fs = fs"
    by (induction fs) simp_all
  moreover from a have "filter (\<lambda>f. f \<noteq> []) fs = fs"
    by (induction fs) simp_all
  ultimately show ?thesis using d
    by (simp add: cleanFeatures_keepFirst keepFirst_distinct)
qed

lemma addFeatures_short_description:
  assumes "features \<noteq> []"
  shows "wc_short_description (addFeatures base features) =
     (case wc_short_description base of
        None \<Rightarrow> Some (joinWith PERSIAN_COMMA_SEP (take 5 (cleanFeatures features)))
      | Some sd \<Rightarrow>
          if sd = [] then Some (joinWith PERSIAN_COMMA_SEP (take 5 (cleanFeatures features)))
          else if includesStr sd VIZHEGI then Some sd
          else Some (joinWith PERSIAN_COMMA_SEP (take 5 (cleanFeatures features))
                       @ ustr '' - '' @ sd))"
  using assms by (simp add: addFeatures_def Let_def split: option.splits)

text \<open>
  C8. For a non-empty FeatureList: when the base short description is absent or empty
  the short description becomes the first five features (all of them when there are
  fewer) joined with the Persian comma and a space; when it is not empty and does not
  contain the label word, that rendering, the separator \<^verbatim>\<open>" - "\<close> and the old text;
  when it contains the label word it stays as it is.
\<close>

theorem short_description_first_five:
  assumes "features \<noteq> []" and "isFeatureList features"
  shows "wc_short_description (addFeatures base features) =
     (case wc_short_description base of
        None \<Rightarrow> Some (joinWith PERSIAN_COMMA_SEP (take 5 features))
      | Some sd \<Rightarrow>
          if sd = [] then Some (joinWith PERSIAN_COMMA_SEP (take 5 features))
          else if includesStr sd VIZHEGI then Some sd
          else Some (joinWith PERSIAN_COMMA_SEP (take 5 features) @ ustr '' - '' @ sd))"
  by (simp add: addFeatures_short_description [OF assms(1)]
        cleanFeatures_FeatureList [OF assms(2)] split: option.splits)

text \<open>
  Six features on an empty short description (five are rendered), two features in
  front of a short description, and a short description that holds the label word.
\<close>

theorem short_description_first_five_witness:
  "wc_short_description (addFeatures examplePayload sixFeatures)
     = Some (ustr ''one1'' @ PERSIAN_COMMA_SEP @ ustr ''two2'' @ PERSIAN_COMMA_SEP @ ustr ''three''
             @ PERSIAN_COMMA_SEP @ ustr ''four'' @ PERSIAN_COMMA_SEP @ ustr ''five'')
   \<and> wc_short_description
        (addFeatures (examplePayload\<lparr> wc_short_description := Some (ustr ''Quiet'') \<rparr>) twoFeatures)
     = Some (ustr ''Fast charging'' @ PERSIAN_COMMA_SEP @ ustr ''Waterproof'' @ ustr '' - Quiet'')
   \<and> wc_short_description
        (addFeatures (examplePayload\<lparr> wc_short_description := Some VIZHEGI \<rparr>) twoFeatures)
     = Some VIZHEGI"
proof -
  have six: "sixFeatures \<noteq> []" and two: "twoFeatures \<noteq> []"
    by (simp_all add: sixFeatures_def twoFeatures_def)
  have ws: "\<not> isWhiteSpace 49" "\<not> isWhiteSpace 50" "\<not> isWhiteSpace 54" "\<not> isWhiteSpace 101"
    "\<not> isWhiteSpace 102" "\<not> isWhiteSpace 103" "\<not> isWhiteSpace 111" "\<not> isWhiteSpace 114"
    "\<not> isWhiteSpace 116" "\<not> isWhiteSpace 115" "\<not> isWhiteSpace 70" "\<not> isWhiteSpace 87"
    by (simp_all add: isWhiteSpace_def)
  have fl6: "isFeatureList sixFeatures"
    by (simp add: isFeatureList_def sixFeatures_def ustr_def trim_def ws)
  have fl2: "isFeatureList twoFeatures"
    by (simp add: isFeatureList_def twoFeatures_def ustr_def trim_def ws)
  show ?thesis
    using short_description_first_five [OF six fl6, of examplePayload]
      short_description_first_five [OF two fl2,
        of "examplePayload\<lparr> wc_short_description := Some (ustr ''Quiet'') \<rparr>"]
      short_description_first_five [OF two fl2,
        of "examplePayload\<lparr> wc_short_description := Some VIZHEGI \<rparr>"]
    by (simp add: examplePayload_def sixFeatures_def twoFeatures_def ustr_def VIZHEGI_def)
qed

section \<open>Additive mapping\<close>

text \<open>
  C5. Mapping an empty feature list leaves the payload as it was: no attributes field
  and no meta_data field is added, and description and short_description keep their
  values; this holds for every base payload.
\<close>

theorem addFeatures_empty_identity:
  "addFeatures base [] = base
   \<and> wc_attributes (addFeatures base []) = wc_attributes base
   \<and> wc_meta_data (addFeatures base []) = wc_meta_data base
   \<and> wc_description (addFeatures base []) = wc_description base
   \<and> wc_short_description (addFeatures base []) = wc_short_description base"
  by (simp add: addFeatures_def)

section \<open>Length limits and the retry on a SKU conflict\<close>

text \<open>
  C9. A scraped description of more than 700 code units is left out of the payload,
  which then carries as description only the rendered features (or none when there
  are no features); a scraped short description of more than 200 code units is left
  out as well; a non-empty description of at most 700 code units is carried, with the
  rendered features in front of it when there are features.
\<close>

theorem long_texts_omitted:
  "(length (pd_description pd) > 700 \<longrightarrow>
      wc_description (buildBase api pd) = None \<and>
      wc_description (uploadPayload api pd) =
        (if pd_features pd = [] then None
         else Some (featuresHTML (cleanFeatures (pd_features pd)))))
   \<and> (length (pd_short_description pd) > 200 \<longrightarrow>
      wc_short_description (buildBase api pd) = None \<and>
      wc_short_description (uploadPayload api pd) =
        (if pd_features pd = [] then None
         else Some (joinWith PERSIAN_COMMA_SEP (take 5 (cleanFeatures (pd_features pd))))))
   \<and> (0 < length (pd_description pd) \<and> length (pd_description pd) \<le> 700 \<longrightarrow>
      wc_description (buildBase api pd) = Some (pd_description pd) \<and>
      wc_description (uploadPayload api pd) =
        (if pd_features pd = [] then Some (pd_description pd)
         else Some (featuresHTML (cleanFeatures (pd_features pd)) @ ustr ''<br><br>''
                    @ pd_description pd)))"
  by (simp add: uploadPayload_def addFeatures_def buildBase_def Let_def split: option.splits)

text \<open>
  A description of 701 and a short description of 201 code units, and a short one.
\<close>

theorem long_texts_omitted_witness:
  "wc_description (uploadPayload noReads longTextProduct) = Some (featuresHTML twoFeatures)
   \<and> wc_short_description (uploadPayload noReads longTextProduct)
       = Some (ustr ''Fast charging'' @ PERSIAN_COMMA_SEP @ ustr ''Waterproof'')
   \<and> wc_description (uploadPayload noReads shortTextProduct)
       = Some (featuresHTML twoFeatures @ ustr ''<br><br><p>Solid.</p>'')"
proof -
  have ws: "\<not> isWhiteSpace 103" "\<not> isWhiteSpace 102" "\<not> isWhiteSpace 70" "\<not> isWhiteSpace 87"
    by (simp_all add: isWhiteSpace_def)
  have fl2: "isFeatureList twoFeatures"
    by (simp add: isFeatureList_def twoFeatures_def ustr_def trim_def ws)
  have c: "cleanFeatures twoFeatures = twoFeatures"
    by (rule cleanFeatures_FeatureList [OF fl2])
  have ne: "twoFeatures \<noteq> []" by (simp add: twoFeatures_def)
  show ?thesis
    using long_texts_omitted [of longTextProduct noReads]
      long_texts_omitted [of shortTextProduct noReads] c ne
    by (simp add: longTextProduct_def shortTextProduct_def) (simp add: twoFeatures_def ustr_def)
qed



section \<open>The image pipeline\<close>

lemma processOneImage_originalUrl:
  "res_originalUrl (fst (processOneImage io w imageUrl)) = imageUrl"
  by (simp add: processOneImage_def uploadedResult_def fallbackResult_def
        split: prod.splits sum.splits)

lemma processOneImage_shape:
  "(let r = fst (processOneImage io w imageUrl)
    in (res_id r \<noteq> None \<and> res_error r = None)
       \<or> (res_id r = None \<and> res_src r = imageUrl \<and> res_error r \<noteq> None))"
  by (simp add: processOneImage_def uploadedResult_def fallbackResult_def Let_def
        split: prod.splits sum.splits)

lemma imageUrlOf_Some: "imageUrlOf img = Some u \<Longrightarrow> imageRefText img = u"
  by (cases img) (auto split: if_splits)

lemma imagesLoop_total:
  "list_all (\<lambda>img. imageUrlOf img \<noteq> None) imageUrls \<Longrightarrow>
   \<exists>rs. imagesLoop io w imageUrls results = Inr (results @ rs)
        \<and> length rs = length imageUrls
        \<and> map res_originalUrl rs = map imageRefText imageUrls
        \<and> list_all (\<lambda>r. (res_id r \<noteq> None \<and> res_error r = None)
                          \<or> (res_id r = None \<and> res_src r = res_originalUrl r
                              \<and> res_error r \<noteq> None)) rs"
proof (induction imageUrls arbitrary: w results)
  case Nil
  show ?case by simp
next
  case (Cons img rest)
  from Cons.prems obtain u where u: "imageUrlOf img = Some u"
    by auto
  obtain r w1 where step: "processOneImage io w u = (r, w1)"
    by (cases "processOneImage io w u")
  from Cons.prems have "list_all (\<lambda>img. imageUrlOf img \<noteq> None) rest"
    by simp
  from Cons.IH [OF this, of w1 "results @ [r]"]
  obtain rs where rs: "imagesLoop io w1 rest (results @ [r]) = Inr ((results @ [r]) @ rs)"
      "length rs = length rest" "map res_originalUrl rs = map imageRefText rest"
      "list_all (\<lambda>r. (res_id r \<noteq> None \<and> res_error r = None)
                          \<or> (res_id r = None \<and> res_src r = res_originalUrl r
                              \<and> res_error r \<noteq> None)) rs"
    by blast
  have orig: "res_originalUrl r = u"
    using processOneImage_originalUrl [of io w u] step by simp
  have shape: "(res_id r \<noteq> None \<and> res_error r = None)
       \<or> (res_id r = None \<and> res_src r = res_originalUrl r \<and> res_error r \<noteq> None)"
    using processOneImage_shape [of io w u] step orig by (simp add: Let_def)
  have "imagesLoop io w (img # rest) results = Inr (results @ (r # rs))"
    using u step rs(1) by simp
  moreover have "length (r # rs) = length (img # rest)"
    using rs(2) by simp
  moreover have "map res_originalUrl (r # rs) = map imageRefText (img # rest)"
    using rs(3) orig imageUrlOf_Some [OF u] by simp
  moreover have "list_all (\<lambda>r. (res_id r \<noteq> None \<and> res_error r = None)
                          \<or> (res_id r = None \<and> res_src r = res_originalUrl r
                              \<and> res_error r \<noteq> None)) (r # rs)"
    using rs(4) shape by simp
  ultimately show ?case by blast
qed

text \<open>
  C10, amended. For every list whose elements are URL strings or objects with a
  non-empty \<^verbatim>\<open>src\<close>, the pipeline returns (no exception leaves it) one entry per
  element, in the order of the input, and each entry is either an uploaded one (an id,
  no error) or a fallback (id null, src the original URL, the error message recorded).
  A failed download and a failed media upload give the fallback entry with the message
  of the failure. A failure inside the watermark removal does not: the downloaded
  buffer goes on unchanged, and when its upload succeeds the entry is the uploaded one.
\<close>

theorem images_one_entry_each:
  "(list_all (\<lambda>img. imageUrlOf img \<noteq> None) imageUrls \<longrightarrow>
      (\<exists>rs. processAndUploadImages io w imageUrls = Inr rs
         \<and> length rs = length imageUrls
         \<and> map res_originalUrl rs = map imageRefText imageUrls
         \<and> list_all (\<lambda>r. (res_id r \<noteq> None \<and> res_error r = None)
                          \<or> (res_id r = None \<and> res_src r = res_originalUrl r
                              \<and> res_error r \<noteq> None)) rs))
   \<and> (io_download io w imageUrl = (Inl message, wa) \<longrightarrow>
        processOneImage io w imageUrl = (fallbackResult imageUrl message, wa))
   \<and> (processProductImage io w imageUrl = (Inr (processedBuffer, filename), wa) \<and>
        io_uploadMedia io wa processedBuffer filename = (Inl message, wb) \<longrightarrow>
        processOneImage io w imageUrl = (fallbackResult imageUrl message, wb))
   \<and> (io_download io w imageUrl = (Inr originalBuffer, wa) \<and>
        io_sharpCover io wa originalBuffer = (Inl message, wb) \<and>
        io_stamp io wb = (stamp, wc) \<and>
        io_uploadMedia io wc originalBuffer (generateImageFilename stamp imageUrl)
          = (Inr uploaded, wd) \<longrightarrow>
        processOneImage io w imageUrl = (uploadedResult imageUrl uploaded, wd))"
proof -
  have "list_all (\<lambda>img. imageUrlOf img \<noteq> None) imageUrls \<longrightarrow>
      (\<exists>rs. processAndUploadImages io w imageUrls = Inr rs
         \<and> length rs = length imageUrls
         \<and> map res_originalUrl rs = map imageRefText imageUrls
         \<and> list_all (\<lambda>r. (res_id r \<noteq> None \<and> res_error r = None)
                          \<or> (res_id r = None \<and> res_src r = res_originalUrl r
                              \<and> res_error r \<noteq> None)) rs)"
  proof (cases "imageUrls = []")
    case True
    then show ?thesis by (simp add: processAndUploadImages_def)
  next
    case False
    then show ?thesis
      using imagesLoop_total [of imageUrls io w "[]"]
      by (simp add: processAndUploadImages_def)
  qed
  moreover have "io_download io w imageUrl = (Inl message, wa) \<longrightarrow>
        processOneImage io w imageUrl = (fallbackResult imageUrl message, wa)"
    by (simp add: processOneImage_def processProductImage_def)
  moreover have "processProductImage io w imageUrl = (Inr (processedBuffer, filename), wa) \<and>
        io_uploadMedia io wa processedBuffer filename = (Inl message, wb) \<longrightarrow>
        processOneImage io w imageUrl = (fallbackResult imageUrl message, wb)"
    by (simp add: processOneImage_def)
  moreover have "io_download io w imageUrl = (Inr originalBuffer, wa) \<and>
        io_sharpCover io wa originalBuffer = (Inl message, wb) \<and>
        io_stamp io wb = (stamp, wc) \<and>
        io_uploadMedia io wc originalBuffer (generateImageFilename stamp imageUrl)
          = (Inr uploaded, wd) \<longrightarrow>
        processOneImage io w imageUrl = (uploadedResult imageUrl uploaded, wd)"
    by (simp add: processOneImage_def processProductImage_def removeWatermark_def)
  ultimately show ?thesis by blast
qed

text \<open>
  Two images while no download succeeds, and one image while the sharp library fails.
\<close>

theorem images_one_entry_each_witness:
  "processAndUploadImages offlineIo 0 [ImgString sourceImageUrl, ImgObject sourceImageUrl]
     = Inr [fallbackResult sourceImageUrl (ustr ''getaddrinfo ENOTFOUND''),
            fallbackResult sourceImageUrl (ustr ''getaddrinfo ENOTFOUND'')]
   \<and> processOneImage sharpFailsIo 0 sourceImageUrl
     = (uploadedResult sourceImageUrl
          \<lparr> up_id = 7, up_source_url = ustr ''https://shop.example/uploads/a.jpg'',
            up_filename = generateImageFilename (ustr ''1700000000000-42'') sourceImageUrl \<rparr>, 4)"
proof -
  have ne: "sourceImageUrl \<noteq> []"
    by (simp add: sourceImageUrl_def ustr_def)
  have a: "processOneImage offlineIo w sourceImageUrl
             = (fallbackResult sourceImageUrl (ustr ''getaddrinfo ENOTFOUND''), Suc w)" for w
    using images_one_entry_each [where io = offlineIo and w = w and imageUrl = sourceImageUrl
        and message = "ustr ''getaddrinfo ENOTFOUND''" and wa = "Suc w"]
    by (simp add: offlineIo_def)
  have b: "processOneImage sharpFailsIo 0 sourceImageUrl
     = (uploadedResult sourceImageUrl
          \<lparr> up_id = 7, up_source_url = ustr ''https://shop.example/uploads/a.jpg'',
            up_filename = generateImageFilename (ustr ''1700000000000-42'') sourceImageUrl \<rparr>, 4)"
    using images_one_entry_each [where io = sharpFailsIo and w = 0 and imageUrl = sourceImageUrl
        and originalBuffer = "[0xFF, 0xD8]" and wa = 1 and wb = 2 and wc = 3 and wd = 4
        and message = "ustr ''Input buffer contains unsupported image format''"
        and stamp = "ustr ''1700000000000-42''"
        and uploaded = "\<lparr> up_id = 7, up_source_url = ustr ''https://shop.example/uploads/a.jpg'',
            up_filename = generateImageFilename (ustr ''1700000000000-42'') sourceImageUrl \<rparr>"]
    by (simp add: sharpFailsIo_def)
  show ?thesis
    using a b ne by (simp add: processAndUploadImages_def)
qed

text \<open>
  C10 as stated fails where the watermark removal fails: the sharp pipeline throws,
  \<^verbatim>\<open>removeWatermark\<close> swallows the error, and the entry of that image carries the
  uploaded URL and an id, with no error recorded.
\<close>

theorem watermark_failure_counterexample:
  "fst (io_sharpCover sharpFailsIo 1 [0xFF, 0xD8])
     = Inl (ustr ''Input buffer contains unsupported image format'')
   \<and> processAndUploadImages sharpFailsIo 0 [ImgString sourceImageUrl]
     = Inr [\<lparr> res_id = Some 7, res_src = ustr ''https://shop.example/uploads/a.jpg'',
              res_filename = ustr ''product-1700000000000-42-a.jpg'',
              res_originalUrl = sourceImageUrl, res_error = None \<rparr>]"
  by (simp add: processAndUploadImages_def processOneImage_def processProductImage_def
        removeWatermark_def sharpFailsIo_def uploadedResult_def generateImageFilename_def
        lastPathPart_def sourceImageUrl_def ustr_def isFilenameChar_def isDigit_def
        asciiLower_def)

section \<open>Text segmentation and the order of the strategies\<close>

lemma splitLoop_concat_nl:
  "concat (splitLoop ahead True cur s) = cur @ filter (\<lambda>c. c \<noteq> 0xA) s"
  by (induction s arbitrary: cur) auto








lemmas vocabulary_defs =
  VIZHEGI_def HAYE_def MAHSUL_def BRAND_def DASTEH_def GHEYMAT_def MOJOOD_def TEDAD_def
  AFZOODAN_def POSHTIBANI_def MOTOR_def SORAT_def TIGHEH_def BATTERY_def SHARZH_def VAZN_def
  ABAD_def JENS_def DARAYE_def MOJAHAZ_def MONASEB_def TOOL_def ZARFIAT_def ZAMAN_def
  TAVAN_def DARAD_def AST_def MI_def BASHAD_def STOP6_def STOP7_def STOP8_def
  HINTS11_def HINTS15_def HINTS19_def ENGLISH_STOPS_def

lemmas regex_defs =
  startsWithAny_def isBullet_def isDigit_def isWhiteSpace_def numericMarkerAhead_def
  bulletAhead_def jsSplit_def stripNumericMarker_def cleanSegment_def trim_def
  customAhead_def wpAhead2_def wpAhead5Label_def wpAhead5Whole_def dropPrefix_def
  isJoinerOrSpace_def isColonOrSpace_def persianAnchor_def asciiUpper_def prefixCI_def
  englishAnchor_def blankLinesAhead_def wpPersianTerminator_def wpEnglishTerminator_def
  customTerminator_def labeledMatch_def ustr_def


lemmas pipeline_defs =
  cleanup_def newSet_def setAdd_def wpSegmentLabeled_def wpStrategy2_def wpStrategy3_def
  wpStrategy4_def wpSegmentShortLabel_def wpSegmentShortWhole_def wpStrategy5_def
  looksLikeFeature_def wpStrategy6_def wpRawFeatures_def scrapeWordPressFeatures_def
  customSegmentLabeled_def customStrategy2_def customStrategy3_def customStrategy4_def
  customSegmentShort_def customStrategy5_def customFeaturesList_def customRawFeatures_def
  scrapeCustomFeatures_def plainTextParser_def noFeaturesListWp_def noFeaturesListCustom_def
  Let_def












text \<open>
  C1 at a page where the dedicated features list yields a result and the labelled
  text yields another: strategy 1 has found the list and its extraction gives the one
  item, yet the pipeline returns the segments of the labelled text. The same on the
  custom site, where the text after the label is cut at the bullet.
\<close>

theorem labeled_text_precedes_features_list:
  "wpLocate (wp_selectorHits labelAndListPage) None = Some labelAndListElement
   \<and> cleanup (wpStrategy4 (Some labelAndListElement) []) = [motorSpeedItem]
   \<and> scrapeWordPressFeatures plainTextParser labelAndListPage = [motorPart, speedPart]
   \<and> cleanup (customStrategy4 (customFeaturesList labelAndListCustomPage) []) = [dashItem]
   \<and> scrapeCustomFeatures plainTextParser labelAndListCustomPage = [strongMotor, speedPart]"
  by (simp add: labelAndListPage_def labelAndListElement_def labelThenItemText_def
        labelAndListCustomPage_def dashItem_def FEATURES_LABEL_def
        motorSpeedItem_def motorPart_def speedPart_def strongMotor_def
        vocabulary_defs regex_defs pipeline_defs)

text \<open>
  C2 at a page with only a specification list: strategy 4 applies no stop-phrase
  filter, and the entry that begins with the word for brand is part of the result of
  both scrapers.
\<close>

theorem features_list_keeps_stop_phrase:
  "scrapeWordPressFeatures plainTextParser specListPage = [brandItem, weightItem]
   \<and> scrapeCustomFeatures plainTextParser specListCustomPage = [brandItem, weightItem]
   \<and> startsWithAny STOP6 brandItem"
  by (simp add: specListPage_def specListCustomPage_def specListElement_def brandItem_def
        weightItem_def vocabulary_defs regex_defs pipeline_defs)










end
